theory Spec2Isabelle
  imports Complex_Main "HOL-Library.Sublist"
begin

section \<open>Python values\<close>

text \<open>
  The extracted pay-stub data is a Python dict read from JSON: its values are
  \<^verbatim>\<open>None\<close>, strings, integers, floats and lists. A Python \<^verbatim>\<open>int\<close> is an
  unbounded integer. A \<^verbatim>\<open>float\<close> is a finite IEEE 754 double, held as the rational
  number it denotes; the arithmetic on floats rounds (section "Double-precision
  arithmetic"). Booleans, nested objects, NaN and the infinities are outside the
  model. Strings are lists of \<^typ>\<open>char\<close>, read as code points below 256.
\<close>

datatype pyval = PyNone | PyStr string | PyInt int | PyFloat rat | PyList "pyval list"

text \<open>Python truthiness, as used by \<^verbatim>\<open>if x:\<close>, \<^verbatim>\<open>x and y\<close>, \<^verbatim>\<open>not x\<close>.\<close>

fun truthy :: "pyval \<Rightarrow> bool" where
  "truthy PyNone = False"
| "truthy (PyStr s) = (s \<noteq> [])"
| "truthy (PyInt n) = (n \<noteq> 0)"
| "truthy (PyFloat x) = (x \<noteq> 0)"
| "truthy (PyList xs) = (xs \<noteq> [])"

type_synonym pydict = "string \<rightharpoonup> pyval"

text \<open>\<^verbatim>\<open>d.get(k)\<close> and \<^verbatim>\<open>d.get(k, default)\<close>: the default only replaces a missing key,
  a key stored with \<^verbatim>\<open>None\<close> yields \<^verbatim>\<open>None\<close>.\<close>

definition get :: "pydict \<Rightarrow> string \<Rightarrow> pyval" where
  "get d k = (case d k of None \<Rightarrow> PyNone | Some v \<Rightarrow> v)"

definition get_default :: "pydict \<Rightarrow> string \<Rightarrow> pyval \<Rightarrow> pyval" where
  "get_default d k dflt = (case d k of None \<Rightarrow> dflt | Some v \<Rightarrow> v)"

text \<open>The exceptions the modelled code can raise. \<open>Exception msg\<close> is a plain
  \<^verbatim>\<open>Exception(msg)\<close>.\<close>

datatype py_exception =
  AttributeError | TypeError | ValueError | OverflowError | Exception string

text \<open>Sequencing of statements that may raise: the first exception ends the block.\<close>

definition and_then :: "py_exception + 'a \<Rightarrow> ('a \<Rightarrow> py_exception + 'b) \<Rightarrow> py_exception + 'b" where
  "and_then r f = (case r of Inl e \<Rightarrow> Inl e | Inr x \<Rightarrow> f x)"

section \<open>Double-precision arithmetic\<close>

text \<open>
  Every arithmetic operation on Python floats returns the double nearest to the exact
  result, ties going to the double with an even significand. \<open>ilog2 n\<close> is the
  position of the leading bit of \<open>n \<ge> 1\<close>, \<open>pow2 k\<close> is 2 to the power \<open>k\<close>, and
  \<open>exponent x\<close> is the binary exponent of \<open>x \<noteq> 0\<close>: the \<open>e\<close> with
  \<open>pow2 e \<le> \<bar>x\<bar> < pow2 (e + 1)\<close>.
\<close>

fun ilog2 :: "nat \<Rightarrow> nat" where
  "ilog2 n = (if n < 2 then 0 else Suc (ilog2 (n div 2)))"

declare ilog2.simps [simp del]

definition pow2 :: "int \<Rightarrow> rat" where
  "pow2 k = (if k \<ge> 0 then 2 ^ nat k else 1 / 2 ^ nat (- k))"

definition exponent :: "rat \<Rightarrow> int" where
  "exponent x =
     (let a = \<bar>x\<bar> in
      if a \<ge> 1 then int (ilog2 (nat \<lfloor>a\<rfloor>))
      else
        let j = int (ilog2 (nat \<lfloor>1 / a\<rfloor>)) in
        if a * pow2 j = 1 then - j else - j - 1)"

text \<open>Rounding to the nearest integer, a tie going to the even one.\<close>

definition round_half_even :: "rat \<Rightarrow> int" where
  "round_half_even m =
     (let f = \<lfloor>m\<rfloor>; r = m - of_int f in
      if r < 1 / 2 then f
      else if r > 1 / 2 then f + 1
      else if even f then f else f + 1)"

text \<open>
  The double nearest to a rational: a significand of 53 bits, so the spacing of the
  doubles around \<open>x\<close> is \<open>pow2 (exponent x - 52)\<close>, and never less than
  \<open>pow2 (- 1074)\<close>, the spacing of the subnormal doubles. A result of magnitude
  \<open>pow2 1024\<close> or more is an infinity in Python; such results are outside the model.
\<close>

definition round_double :: "rat \<Rightarrow> rat" where
  "round_double x =
     (if x = 0 then 0
      else
        let u = pow2 (max (exponent x - 52) (- 1074))
        in of_int (round_half_even (x / u)) * u)"

text \<open>The four operations on floats. The divisor of \<open>fdiv\<close> is not 0 where the
  modelled code divides.\<close>

definition fadd :: "rat \<Rightarrow> rat \<Rightarrow> rat" where
  "fadd x y = round_double (x + y)"

definition fsub :: "rat \<Rightarrow> rat \<Rightarrow> rat" where
  "fsub x y = round_double (x - y)"

definition fmul :: "rat \<Rightarrow> rat \<Rightarrow> rat" where
  "fmul x y = round_double (x * y)"

definition fdiv :: "rat \<Rightarrow> rat \<Rightarrow> rat" where
  "fdiv x y = round_double (x / y)"

text \<open>The conversion of an \<^verbatim>\<open>int\<close> to a float, which Python applies to the \<^verbatim>\<open>int\<close>
  operand of a mixed operation and in \<^verbatim>\<open>float(n)\<close>: the nearest double, or
  \<^verbatim>\<open>OverflowError\<close> when the integer is too large for a double.\<close>

definition int_to_float :: "int \<Rightarrow> py_exception + rat" where
  "int_to_float n =
     (let r = round_double (of_int n)
      in if \<bar>r\<bar> \<ge> pow2 1024 then Inl OverflowError else Inr r)"

text \<open>\<^verbatim>\<open>a / b\<close> on two \<^verbatim>\<open>int\<close>s with \<open>b \<noteq> 0\<close>: the double nearest to the exact
  quotient, or \<^verbatim>\<open>OverflowError\<close> when the quotient is too large for a double.\<close>

definition int_truediv :: "int \<Rightarrow> int \<Rightarrow> py_exception + rat" where
  "int_truediv a b =
     (let r = round_double (of_int a / of_int b)
      in if \<bar>r\<bar> \<ge> pow2 1024 then Inl OverflowError else Inr r)"

section \<open>String primitives\<close>

text \<open>\<^verbatim>\<open>str.isspace\<close> on one character, for code points below 256: tab, line feed,
  vertical tab, form feed, carriage return, the separators 0x1c..0x1f, space, 0x85
  and 0xa0. These are the characters \<^verbatim>\<open>strip()\<close> and \<^verbatim>\<open>split()\<close> treat as
  whitespace.\<close>

definition py_isspace :: "char \<Rightarrow> bool" where
  "py_isspace c = (of_char c \<in> {9, 10, 11, 12, 13, 28, 29, 30, 31, 32, 133, 160 :: nat})"

text \<open>\<^verbatim>\<open>str.lower\<close> on one character below 256: A..Z and the Latin-1 capitals
  0xc0..0xde (without the multiplication sign 0xd7) move up by 32, which sets bit 5
  of the code point; everything else is unchanged.\<close>

definition py_isupper :: "char \<Rightarrow> bool" where
  "py_isupper c =
     (let n = (of_char c :: nat) in
      (65 \<le> n \<and> n \<le> 90) \<or> (192 \<le> n \<and> n \<le> 222 \<and> n \<noteq> 215))"

fun py_lower_char :: "char \<Rightarrow> char" where
  "py_lower_char (Char b0 b1 b2 b3 b4 b5 b6 b7) =
     (if py_isupper (Char b0 b1 b2 b3 b4 b5 b6 b7) then Char b0 b1 b2 b3 b4 True b6 b7
      else Char b0 b1 b2 b3 b4 b5 b6 b7)"

definition py_lower :: "string \<Rightarrow> string" where
  "py_lower s = map py_lower_char s"

definition py_strip :: "string \<Rightarrow> string" where
  "py_strip s = rev (dropWhile py_isspace (rev (dropWhile py_isspace s)))"

text \<open>\<^verbatim>\<open>str.split()\<close> without arguments: the maximal runs of non-whitespace
  characters, in order; \<open>cur\<close> is the token being read.\<close>

fun split_scan :: "string \<Rightarrow> string \<Rightarrow> string list" where
  "split_scan cur [] = (if cur = [] then [] else [cur])"
| "split_scan cur (c # cs) =
     (if py_isspace c then (if cur = [] then split_scan [] cs else cur # split_scan [] cs)
      else split_scan (cur @ [c]) cs)"

definition py_split :: "string \<Rightarrow> string list" where
  "py_split s = split_scan [] s"

text \<open>\<^verbatim>\<open>s.replace(old, new)\<close> for a non-empty \<open>old\<close>: every occurrence of \<open>old\<close>,
  found left to right without overlap, is replaced, wherever in \<open>s\<close> it stands.\<close>

function py_replace :: "string \<Rightarrow> string \<Rightarrow> string \<Rightarrow> string" where
  "py_replace old new [] = []"
| "py_replace old new (c # cs) =
     (if old \<noteq> [] \<and> prefix old (c # cs)
      then new @ py_replace old new (drop (length old) (c # cs))
      else c # py_replace old new cs)"
  by pat_completeness auto
termination
  by (relation "measure (\<lambda>(old, new, s). length s)") auto


text \<open>\<^verbatim>\<open>sep.join(xs)\<close>.\<close>

fun py_join :: "string \<Rightarrow> string list \<Rightarrow> string" where
  "py_join sep [] = []"
| "py_join sep [x] = x"
| "py_join sep (x # y # ys) = x @ sep @ py_join sep (y # ys)"

section \<open>Similarity scoring\<close>

text \<open>
  \<^verbatim>\<open>GeminiOCRService._calculate_name_similarity\<close>. The two \<^verbatim>\<open>set(...)\<close> of words are
  only used through the sizes of their intersection and union. The two quotients divide
  one small \<^verbatim>\<open>int\<close> by another, which gives the double nearest to the exact quotient;
  \<^verbatim>\<open>0.6\<close> and \<^verbatim>\<open>0.4\<close> are the doubles nearest to 6/10 and 4/10.
\<close>

definition calculate_name_similarity :: "string \<Rightarrow> string \<Rightarrow> rat" where
  "calculate_name_similarity name1 name2 =
     (if name1 = [] \<or> name2 = [] then 0
      else
        let n1 = py_strip (py_lower name1);
            n2 = py_strip (py_lower name2)
        in if n1 = n2 then 1
           else
             let words1 = set (py_split n1);
                 words2 = set (py_split n2)
             in if words1 = {} \<or> words2 = {} then 0
                else
                  let intersection = card (words1 \<inter> words2);
                      union = card (words1 \<union> words2);
                      jaccard_sim =
                        (if union > 0 then fdiv (of_nat intersection) (of_nat union) else 0);
                      words1_list = py_split n1;
                      words2_list = py_split n2;
                      shorter = (if length words1_list \<le> length words2_list
                                 then words1_list else words2_list);
                      longer = (if length words1_list \<le> length words2_list
                                then words2_list else words1_list);
                      word_order_sim =
                        (if shorter \<noteq> []
                         then fdiv (of_nat (length (filter (\<lambda>word. word \<in> set longer) shorter)))
                                (of_nat (length shorter))
                         else 0);
                      combined_sim =
                        fadd (fmul jaccard_sim (round_double (6 / 10)))
                             (fmul word_order_sim (round_double (4 / 10)))
                  in min combined_sim 1)"

text \<open>The list \<^verbatim>\<open>suffixes\<close> of \<^verbatim>\<open>_calculate_employer_similarity\<close> and its loop body: for one
  suffix, \<^verbatim>\<open>employer.replace(f' {suffix}', '').replace(f'.{suffix}', '')\<close>.\<close>

definition business_suffixes :: "string list" where
  "business_suffixes = [''inc'', ''llc'', ''corp'', ''ltd'', ''company'', ''co'', ''enterprises'', ''group'']"

definition remove_suffix :: "string \<Rightarrow> string \<Rightarrow> string" where
  "remove_suffix employer sfx =
     py_replace (''.'' @ sfx) [] (py_replace ('' '' @ sfx) [] employer)"

definition remove_suffixes :: "string \<Rightarrow> string" where
  "remove_suffixes employer = foldl remove_suffix employer business_suffixes"

text \<open>\<^verbatim>\<open>GeminiOCRService._calculate_employer_similarity\<close>. The loop updates the two
  strings independently, so it is run on each of them.\<close>

definition calculate_employer_similarity :: "string \<Rightarrow> string \<Rightarrow> rat" where
  "calculate_employer_similarity employer1 employer2 =
     (if employer1 = [] \<or> employer2 = [] then 0
      else
        let e1 = py_strip (py_lower employer1);
            e2 = py_strip (py_lower employer2)
        in if e1 = e2 then 1
           else calculate_name_similarity (remove_suffixes e1) (remove_suffixes e2))"

section \<open>Formatted text\<close>

text \<open>
  The reasons and summaries are f-strings. An f-string is kept as the list of its
  parts: literal text, \<^verbatim>\<open>str()\<close> of a Python value, an integer, a number (an
  \<^verbatim>\<open>int\<close> or a float) under a format specification (\<^verbatim>\<open>.1%\<close>, \<^verbatim>\<open>.1f\<close>, \<^verbatim>\<open>,\<close>), or
  \<^verbatim>\<open>str(e)\<close> of an exception. Python's number formatting itself is not modelled.
\<close>

datatype fpart = FLit string | FStr pyval | FInt int | FFmt string pyval | FExc py_exception

type_synonym fstring = "fpart list"

text \<open>The apostrophe, which the reasons put around quoted values.\<close>

definition apostrophe :: string where
  "apostrophe = [CHR 0x27]"

section \<open>The verdict aggregator\<close>

text \<open>
  The dict \<^verbatim>\<open>verification_results\<close>. A field of option type is \<open>None\<close> when the key
  is missing from the dict or stored as \<^verbatim>\<open>None\<close>. \<open>Match l\<close> and \<open>Mismatch l\<close> stand
  for the detail lines "(check mark) l Match" and "(cross mark) l Mismatch".
\<close>

datatype detail = Match string | Mismatch string

record verification_results =
  name_match :: "bool option"
  name_reason :: fstring
  salary_match :: "bool option"
  salary_reason :: fstring
  extracted_salary :: pyval
  employer_match :: "bool option"
  employer_reason :: fstring
  extracted_employer :: "pyval option"
  ssn_match :: "bool option"
  ssn_reason :: fstring
  extracted_ssn :: "pyval option"
  overall_status :: "string option"
  verification_score :: "rat option"
  verification_summary :: "fstring option"
  verification_details :: "detail list option"
  mismatches :: "string list option"
  verified_fields :: "string list option"

text \<open>One of the four "Check ... match" blocks of
  \<^verbatim>\<open>_calculate_overall_verification_status\<close>: a flag that is not \<^verbatim>\<open>None\<close> appends to
  the details and to one of the two field lists.\<close>

definition check_field ::
  "string \<Rightarrow> string \<Rightarrow> bool option \<Rightarrow> detail list \<times> string list \<times> string list
     \<Rightarrow> detail list \<times> string list \<times> string list" where
  "check_field label field flag acc =
     (case acc of (dets, mism, verif) \<Rightarrow>
        (case flag of
           None \<Rightarrow> (dets, mism, verif)
         | Some b \<Rightarrow>
             if b then (dets @ [Match label], mism, verif @ [field])
             else (dets @ [Mismatch label], mism @ [field], verif)))"

text \<open>\<^verbatim>\<open>GeminiOCRService._calculate_overall_verification_status\<close>. The score is a
  float, or the \<^verbatim>\<open>int\<close> 0 when no field was evaluated; the field holds its value.\<close>

definition calculate_overall_verification_status ::
  "verification_results \<Rightarrow> verification_results" where
  "calculate_overall_verification_status vr =
     (case check_field ''SSN'' ''ssn'' (ssn_match vr)
            (check_field ''Employer'' ''employer'' (employer_match vr)
              (check_field ''Salary'' ''salary'' (salary_match vr)
                (check_field ''Name'' ''name'' (name_match vr) ([], [], [])))) of
        (dets, mism, verif) \<Rightarrow>
          let total_fields = length verif + length mism;
              score_percentage =
                (if total_fields > 0
                 then fmul (fdiv (of_nat (length verif)) (of_nat total_fields)) 100
                 else 0);
              status =
                (if length mism = 0 then ''verified'' else ''mismatch'');
              status_reason =
                (if length mism = 0
                 then [FLit ''Verification passed - all fields match ('',
                       FInt (int (length verif)), FLit ''/'', FInt (int total_fields),
                       FLit '' fields verified)'']
                 else [FLit ''Verification failed - '', FInt (int (length mism)),
                       FLit '' field(s) mismatch: '', FLit (py_join '', '' mism)])
          in vr\<lparr>overall_status := Some status,
                verification_score := Some score_percentage,
                verification_summary := Some status_reason,
                verification_details := Some dets,
                mismatches := Some mism,
                verified_fields := Some verif\<rparr>)"

section \<open>Field comparison\<close>

text \<open>The dict \<^verbatim>\<open>application_data\<close>, which every caller builds with these four keys
  from a stored \<^verbatim>\<open>LoanApplication\<close>.\<close>

record application_data =
  name :: string
  annual_salary :: int
  employer_name :: string
  ssn :: string

text \<open>\<^verbatim>\<open>v.lower().strip()\<close> on a dict value: only a string has the method.\<close>

definition lower_strip :: "pyval \<Rightarrow> py_exception + string" where
  "lower_strip v =
     (case v of PyStr s \<Rightarrow> Inr (py_strip (py_lower s)) | _ \<Rightarrow> Inl AttributeError)"

text \<open>The dict \<^verbatim>\<open>verification_results\<close> as \<^verbatim>\<open>verify_application_data\<close> creates it.\<close>

definition initial_results :: verification_results where
  "initial_results =
     \<lparr>name_match = Some False, name_reason = [],
      salary_match = Some False, salary_reason = [],
      extracted_salary = PyNone,
      employer_match = Some False, employer_reason = [],
      extracted_employer = Some PyNone,
      ssn_match = Some False, ssn_reason = [],
      extracted_ssn = Some PyNone,
      overall_status = None, verification_score = None, verification_summary = None,
      verification_details = None, mismatches = None, verified_fields = None\<rparr>"

text \<open>The dict returned by the \<^verbatim>\<open>except Exception as e\<close> handler.\<close>

definition error_results :: "py_exception \<Rightarrow> verification_results" where
  "error_results e =
     \<lparr>name_match = Some False, name_reason = [FLit ''Verification error: '', FExc e],
      salary_match = Some False, salary_reason = [FLit ''Verification error: '', FExc e],
      extracted_salary = PyNone,
      employer_match = Some False, employer_reason = [FLit ''Verification error: '', FExc e],
      extracted_employer = None,
      ssn_match = Some False, ssn_reason = [FLit ''Verification error: '', FExc e],
      extracted_ssn = None,
      overall_status = Some ''error'', verification_score = None,
      verification_summary = None, verification_details = None, mismatches = None,
      verified_fields = None\<rparr>"

text \<open>"Verify name with strict 80% similarity threshold". \<^verbatim>\<open>0.8\<close> is the double
  nearest to 8/10.\<close>

definition verify_name ::
  "application_data \<Rightarrow> pydict \<Rightarrow> verification_results \<Rightarrow> py_exception + verification_results" where
  "verify_name app extracted_data vr =
     (let app_name = py_strip (py_lower (name app)) in
      and_then (lower_strip (get_default extracted_data ''employee_name'' (PyStr [])))
        (\<lambda>extracted_name.
           if app_name \<noteq> [] \<and> extracted_name \<noteq> [] then
             let name_match_score = calculate_name_similarity app_name extracted_name in
             if name_match_score \<ge> round_double (8 / 10) then
               Inr (vr\<lparr>name_match := Some True,
                       name_reason := [FLit ''Name matches (similarity: '',
                                       FFmt ''.1%'' (PyFloat name_match_score), FLit '')'']\<rparr>)
             else
               Inr (vr\<lparr>name_match := Some False,
                       name_reason :=
                         [FLit (''Name mismatch: Application has '' @ apostrophe),
                          FStr (PyStr (name app)),
                          FLit (apostrophe @ '' but pay stub shows '' @ apostrophe),
                          FStr (get extracted_data ''employee_name''),
                          FLit (apostrophe @ '' (similarity: ''),
                          FFmt ''.1%'' (PyFloat name_match_score),
                          FLit '') - requires 80%+ similarity'']\<rparr>)
           else
             Inr (vr\<lparr>name_match := Some False,
                     name_reason := [FLit ''Could not verify name - missing data'']\<rparr>)))"

text \<open>
  "Verify salary with enhanced logic". \<open>salary_verdict\<close> is the part after the
  difference and the percentage are known: the tolerance tier, the comparison and the
  two reasons. \<open>diff\<close>, \<open>pct\<close> and \<open>extracted\<close> are the values of \<^verbatim>\<open>salary_diff\<close>,
  \<^verbatim>\<open>salary_diff_percent\<close> and \<^verbatim>\<open>extracted_salary\<close>, and \<open>p\<close> is the number that \<open>pct\<close>
  holds.
\<close>

definition salary_verdict ::
  "int \<Rightarrow> pyval \<Rightarrow> pyval \<Rightarrow> pyval \<Rightarrow> rat \<Rightarrow> verification_results \<Rightarrow> verification_results" where
  "salary_verdict app_salary extracted diff pct p vr =
     (let tolerance_percent =
            (if app_salary < 30000 then 15
             else if app_salary < 100000 then 12
             else (10 :: int))
      in if p \<le> of_int tolerance_percent then
           vr\<lparr>extracted_salary := extracted,
              salary_match := Some True,
              salary_reason :=
                [FLit ''Salary matches within '', FInt tolerance_percent,
                 FLit ''% tolerance (difference: $'', FFmt '','' diff,
                 FLit '', '', FFmt ''.1f'' pct, FLit ''%)'']\<rparr>
         else
           vr\<lparr>extracted_salary := extracted,
              salary_reason :=
                [FLit ''Salary mismatch: Application shows $'',
                 FFmt '','' (PyInt app_salary),
                 FLit '' but pay stub indicates $'', FFmt '','' extracted,
                 FLit '' (difference: $'', FFmt '','' diff,
                 FLit '', '', FFmt ''.1f'' pct, FLit ''%)'']\<rparr>)"

text \<open>
  The whole block. With a float from the pay stub, \<^verbatim>\<open>app_salary - extracted_salary\<close>
  and \<^verbatim>\<open>salary_diff / app_salary\<close> convert the \<^verbatim>\<open>int\<close> \<^verbatim>\<open>app_salary\<close> to a float and
  round their results; with an \<^verbatim>\<open>int\<close> from the pay stub the difference is exact and
  the quotient is an \<^verbatim>\<open>int\<close> division. The product with \<^verbatim>\<open>100\<close> rounds again. For
  \<^verbatim>\<open>app_salary\<close> below 0 the percentage is the \<^verbatim>\<open>int\<close> 100. The subtraction raises
  \<^verbatim>\<open>TypeError\<close> for an extracted value that is not a number.
\<close>

definition verify_salary ::
  "application_data \<Rightarrow> pydict \<Rightarrow> verification_results \<Rightarrow> py_exception + verification_results" where
  "verify_salary app extracted_data vr =
     (let app_salary = annual_salary app;
          extracted = get_default extracted_data ''annual_salary'' (PyInt 0)
      in
        if truthy extracted \<and> app_salary \<noteq> 0 then
          (case extracted of
             PyFloat x \<Rightarrow>
               and_then (int_to_float app_salary) (\<lambda>app_float.
                 let salary_diff = \<bar>fsub app_float x\<bar> in
                 if app_salary > 0 then
                   let salary_diff_percent = fmul (fdiv salary_diff app_float) 100 in
                   Inr (salary_verdict app_salary extracted (PyFloat salary_diff)
                          (PyFloat salary_diff_percent) salary_diff_percent vr)
                 else
                   Inr (salary_verdict app_salary extracted (PyFloat salary_diff)
                          (PyInt 100) 100 vr))
           | PyInt n \<Rightarrow>
               let salary_diff = \<bar>app_salary - n\<bar> in
               if app_salary > 0 then
                 and_then (int_truediv salary_diff app_salary) (\<lambda>quotient.
                   let salary_diff_percent = fmul quotient 100 in
                   Inr (salary_verdict app_salary extracted (PyInt salary_diff)
                          (PyFloat salary_diff_percent) salary_diff_percent vr))
               else
                 Inr (salary_verdict app_salary extracted (PyInt salary_diff)
                        (PyInt 100) 100 vr)
           | _ \<Rightarrow> Inl TypeError)
        else if truthy extracted then
          Inr (vr\<lparr>extracted_salary := extracted,
                  salary_reason :=
                    [FLit ''Could not verify salary - application salary not provided'']\<rparr>)
        else
          Inr (vr\<lparr>salary_reason := [FLit ''Could not extract salary from pay stub'']\<rparr>))"

text \<open>"Verify employer with strict 80% similarity threshold".\<close>

definition verify_employer ::
  "application_data \<Rightarrow> pydict \<Rightarrow> verification_results \<Rightarrow> py_exception + verification_results" where
  "verify_employer app extracted_data vr =
     (let app_employer = py_strip (py_lower (employer_name app)) in
      and_then (lower_strip (get_default extracted_data ''company_name'' (PyStr [])))
        (\<lambda>extracted_emp.
           if extracted_emp \<noteq> [] then
             let vr1 = vr\<lparr>extracted_employer := Some (get extracted_data ''company_name'')\<rparr> in
             if app_employer \<noteq> [] \<and> extracted_emp \<noteq> [] then
               let employer_match_score =
                     calculate_employer_similarity app_employer extracted_emp in
               if employer_match_score \<ge> round_double (8 / 10) then
                 Inr (vr1\<lparr>employer_match := Some True,
                          employer_reason :=
                            [FLit ''Employer matches (similarity: '',
                             FFmt ''.1%'' (PyFloat employer_match_score), FLit '')'']\<rparr>)
               else
                 Inr (vr1\<lparr>employer_match := Some False,
                          employer_reason :=
                            [FLit (''Employer mismatch: Application has '' @ apostrophe),
                             FStr (PyStr (employer_name app)),
                             FLit (apostrophe @ '' but pay stub shows '' @ apostrophe),
                             FStr (get extracted_data ''company_name''),
                             FLit (apostrophe @ '' (similarity: ''),
                             FFmt ''.1%'' (PyFloat employer_match_score),
                             FLit '') - requires 80%+ similarity'']\<rparr>)
             else
               Inr (vr1\<lparr>employer_match := Some False,
                        employer_reason := [FLit ''Could not verify employer - missing data'']\<rparr>)
           else
             Inr (vr\<lparr>employer_match := Some False,
                     employer_reason :=
                       [FLit ''Could not extract employer name from pay stub'']\<rparr>)))"

text \<open>"Verify SSN (last 4 digits) - exact match required". \<^verbatim>\<open>==\<close> between a string
  and a value of another type is false.\<close>

definition verify_ssn ::
  "application_data \<Rightarrow> pydict \<Rightarrow> verification_results \<Rightarrow> py_exception + verification_results" where
  "verify_ssn app extracted_data vr =
     (let app_ssn = ssn app;
          extracted = get_default extracted_data ''ssn'' (PyStr [])
      in
        if truthy extracted then
          let vr1 = vr\<lparr>extracted_ssn := Some extracted\<rparr> in
          if app_ssn \<noteq> [] \<and> truthy extracted then
            let app_last4 =
                  (if length app_ssn \<ge> 4 then drop (length app_ssn - 4) app_ssn else app_ssn)
            in if PyStr app_last4 = extracted then
                 Inr (vr1\<lparr>ssn_match := Some True,
                          ssn_reason := [FLit ''SSN last 4 digits match'']\<rparr>)
               else
                 Inr (vr1\<lparr>ssn_match := Some False,
                          ssn_reason :=
                            [FLit ''SSN mismatch: Application last 4 digits are '',
                             FStr (PyStr app_last4), FLit '' but pay stub shows '',
                             FStr extracted, FLit '' - exact match required'']\<rparr>)
          else
            Inr (vr1\<lparr>ssn_match := Some False,
                     ssn_reason := [FLit ''Could not verify SSN - missing data'']\<rparr>)
        else
          Inr (vr\<lparr>ssn_match := Some False,
                  ssn_reason := [FLit ''Could not extract SSN from pay stub'']\<rparr>))"

text \<open>
  \<^verbatim>\<open>GeminiOCRService.verify_application_data\<close>. \<open>api_key\<close> is
  \<^verbatim>\<open>settings.GEMINI_API_KEY\<close>. The body of the \<^verbatim>\<open>try\<close> runs the four comparisons in
  order and then the aggregator; any exception is caught and turned into the error
  dict.
\<close>

definition verify_application_data ::
  "string \<Rightarrow> application_data \<Rightarrow> pydict \<Rightarrow> verification_results" where
  "verify_application_data api_key app extracted_data =
     (case
        (if api_key = [] \<or> api_key = ''your_gemini_api_key_here''
         then Inl (Exception ''Gemini API key not configured'')
         else
           and_then (verify_name app extracted_data initial_results) (\<lambda>vr1.
           and_then (verify_salary app extracted_data vr1) (\<lambda>vr2.
           and_then (verify_employer app extracted_data vr2) (\<lambda>vr3.
           and_then (verify_ssn app extracted_data vr3) (\<lambda>vr4.
           Inr (calculate_overall_verification_status vr4))))))
      of
        Inr vr \<Rightarrow> vr
      | Inl e \<Rightarrow> error_results e)"

section \<open>Annual salary derivation\<close>






section \<open>The live verification stream\<close>

text \<open>
  One event of the stream: the dict that \<^verbatim>\<open>generate_verification_stream\<close> serialises
  in a \<^verbatim>\<open>yield\<close>. \<open>error\<close> holds when the dict has \<^verbatim>\<open>'error': True\<close>; the payload is
  the extracted data of the "extracted" event or the results and the id of the
  "complete" event.
\<close>

datatype event_payload =
  NoPayload | ExtractedData pydict | VerificationResults verification_results string

record event =
  step :: string
  message :: fstring
  progress :: nat
  error :: bool
  payload :: event_payload

definition progress_event :: "string \<Rightarrow> string \<Rightarrow> nat \<Rightarrow> event" where
  "progress_event s m p =
     \<lparr>step = s, message = [FLit m], progress = p, error = False, payload = NoPayload\<rparr>"

definition error_event :: "string \<Rightarrow> py_exception \<Rightarrow> event" where
  "error_event m e =
     \<lparr>step = ''error'', message = [FLit m, FExc e], progress = 0, error = True,
      payload = NoPayload\<rparr>"

text \<open>
  \<^verbatim>\<open>generate_verification_stream\<close> of \<^verbatim>\<open>live_verification_stream\<close>, as the list of
  the events it yields. The two awaited collaborators are parameters:
  \<open>extraction\<close> is what \<^verbatim>\<open>gemini_ocr.extract_paystub_data\<close> returns or raises, and
  \<open>creation\<close> is what \<^verbatim>\<open>firestore_service.create_verification\<close> returns (the new id)
  or raises. Serialising the yielded dicts does not raise for the values modelled, so
  the outermost handler is not entered.
\<close>

definition generate_verification_stream ::
  "string \<Rightarrow> application_data \<Rightarrow> py_exception + pydict \<Rightarrow> py_exception + string \<Rightarrow> event list" where
  "generate_verification_stream api_key application extraction creation =
     [progress_event ''starting'' ''Starting verification process...'' 0,
      progress_event ''downloading'' ''Downloading document from storage...'' 20,
      progress_event ''ocr'' ''Extracting data using AI OCR...'' 40,
      progress_event ''extracting'' ''Analyzing document with AI...'' 50] @
     (case extraction of
        Inl e \<Rightarrow> [error_event ''OCR extraction failed: '' e]
      | Inr extracted_data \<Rightarrow>
          [(progress_event ''extracted'' ''Data extracted successfully'' 60)
             \<lparr>payload := ExtractedData extracted_data\<rparr>,
           progress_event ''verifying_name'' ''Verifying name match...'' 70,
           progress_event ''verifying_salary'' ''Verifying salary match...'' 80,
           progress_event ''verifying_employer'' ''Verifying employer match...'' 90,
           progress_event ''finalizing'' ''Finalizing verification results...'' 95] @
          (let results = verify_application_data api_key application extracted_data in
           case creation of
             Inl e \<Rightarrow> [error_event ''Verification process failed: '' e]
           | Inr verification_id \<Rightarrow>
               [(progress_event ''complete'' ''Verification completed'' 100)
                  \<lparr>payload := VerificationResults results verification_id\<rparr>]))"

section \<open>Auxiliary predicate\<close>

text \<open>All four match flags of a results dict hold a boolean. Used in the proofs about
  the pipeline only.\<close>

definition flags_set :: "verification_results \<Rightarrow> bool" where
  "flags_set vr = (name_match vr \<noteq> None \<and> salary_match vr \<noteq> None \<and>
                   employer_match vr \<noteq> None \<and> ssn_match vr \<noteq> None)"

section \<open>Evaluation on concrete inputs\<close>

text \<open>Rules that let the simplifier compute \<open>ilog2\<close> and the floor of a fraction of
  numerals.\<close>

lemma ilog2_less_2: "n < 2 \<Longrightarrow> ilog2 n = 0"
  by (simp add: ilog2.simps)

lemma ilog2_step: "2 \<le> n \<Longrightarrow> ilog2 n = Suc (ilog2 (n div 2))"
  by (subst ilog2.simps) simp

lemma floor_rat_numeral_divide:
  "\<lfloor>numeral a / numeral b :: rat\<rfloor> = numeral a div numeral b"
  using floor_divide_of_int_eq [of "numeral a" "numeral b", where ?'a = rat] by simp

lemma floor_rat_neg_numeral_divide:
  "\<lfloor>- (numeral a / numeral b) :: rat\<rfloor> = - numeral a div numeral b"
  using floor_divide_of_int_eq [of "- numeral a" "numeral b", where ?'a = rat] by simp

lemma floor_rat_one_divide:
  "\<lfloor>1 / numeral b :: rat\<rfloor> = 1 div numeral b"
  using floor_divide_of_int_eq [of 1 "numeral b", where ?'a = rat] by simp

lemmas double_defs = fadd_def fsub_def fmul_def fdiv_def int_to_float_def int_truediv_def
  round_double_def round_half_even_def exponent_def pow2_def ilog2_less_2 ilog2_step
  floor_rat_numeral_divide floor_rat_neg_numeral_divide floor_rat_one_divide Let_def

lemmas string_defs = py_split_def py_strip_def py_lower_def py_isupper_def py_isspace_def

lemmas similarity_defs = calculate_name_similarity_def calculate_employer_similarity_def
  remove_suffixes_def remove_suffix_def business_suffixes_def string_defs Let_def

lemmas verify_defs = verify_application_data_def verify_name_def verify_salary_def
  salary_verdict_def verify_employer_def verify_ssn_def
  calculate_overall_verification_status_def check_field_def
  initial_results_def lower_strip_def and_then_def get_default_def get_def similarity_defs

text \<open>The doubles that the examples below meet.\<close>

lemma quarter_scores:
  "fmul (fdiv 0 4) 100 = 0" "fmul (fdiv 1 4) 100 = 25" "fmul (fdiv 2 4) 100 = 50"
  "fmul (fdiv 3 4) 100 = 75" "fmul (fdiv 4 4) 100 = 100"
  by (simp_all add: double_defs)

lemma half_score: "fmul (fdiv 1 2) 100 = 50"
  by (simp add: double_defs)

lemma salary_floats:
  "int_to_float 50000 = Inr 50000" "int_to_float 60000 = Inr 60000"
  "int_to_float 9088487390612093 = Inr 9088487390612092"
  "int_truediv 6000 50000 = Inr (1080863910568919 / 9007199254740992)"
  by (simp_all add: double_defs)



section \<open>Facts about the aggregator\<close>

lemma aggregate_flags:
  "name_match (calculate_overall_verification_status vr) = name_match vr \<and>
   salary_match (calculate_overall_verification_status vr) = salary_match vr \<and>
   employer_match (calculate_overall_verification_status vr) = employer_match vr \<and>
   ssn_match (calculate_overall_verification_status vr) = ssn_match vr"
  by (simp add: calculate_overall_verification_status_def Let_def split: prod.splits)

lemma aggregate_four_flags:
  assumes "name_match vr = Some a" "salary_match vr = Some b"
    "employer_match vr = Some c" "ssn_match vr = Some d"
  shows "overall_status (calculate_overall_verification_status vr) =
           Some (if a \<and> b \<and> c \<and> d then ''verified'' else ''mismatch'')"
    and "verification_score (calculate_overall_verification_status vr) =
           Some (of_nat (length (filter id [a, b, c, d])) / 4 * 100)"
  using assms
  by (cases a; cases b; cases c; cases d;
      simp add: calculate_overall_verification_status_def check_field_def Let_def
        quarter_scores)+

lemma aggregate_score_cases:
  "verification_score (calculate_overall_verification_status vr) =
     Some (let flags = [name_match vr, salary_match vr, employer_match vr, ssn_match vr];
               evaluated = length (filter (\<lambda>f. \<not> Option.is_none f) flags);
               matched = length (filter (\<lambda>f. f = Some True) flags)
           in if evaluated > 0 then fmul (fdiv (of_nat matched) (of_nat evaluated)) 100 else 0)"
proof -
  obtain n where n: "name_match vr = n" by simp
  obtain s where s: "salary_match vr = s" by simp
  obtain e where e: "employer_match vr = e" by simp
  obtain d where d: "ssn_match vr = d" by simp
  show ?thesis
    unfolding n s e d calculate_overall_verification_status_def check_field_def Let_def
    using n s e d
    by (cases n; cases s; cases e; cases d; simp)
qed

section \<open>Facts about the four comparisons\<close>

lemma verify_name_flags:
  "verify_name app ext vr = Inr vr' \<Longrightarrow> flags_set vr \<Longrightarrow> flags_set vr'"
  by (auto simp: verify_name_def and_then_def flags_set_def Let_def split: sum.splits if_splits)

lemma verify_salary_flags:
  "verify_salary app ext vr = Inr vr' \<Longrightarrow> flags_set vr \<Longrightarrow> flags_set vr'"
  by (auto simp: verify_salary_def salary_verdict_def and_then_def flags_set_def Let_def
      split: pyval.splits if_splits sum.splits)

lemma verify_employer_flags:
  "verify_employer app ext vr = Inr vr' \<Longrightarrow> flags_set vr \<Longrightarrow> flags_set vr'"
  by (auto simp: verify_employer_def and_then_def flags_set_def Let_def split: sum.splits if_splits)

lemma verify_ssn_flags:
  "verify_ssn app ext vr = Inr vr' \<Longrightarrow> flags_set vr \<Longrightarrow> flags_set vr'"
  by (auto simp: verify_ssn_def flags_set_def Let_def split: if_splits)

lemma error_results_status: "overall_status (error_results e) = Some ''error''"
  by (simp add: error_results_def)

text \<open>A run that does not end in the exception handler returns what the aggregator makes
  of a dict whose four flags are booleans.\<close>

lemma verify_completed:
  assumes "overall_status (verify_application_data api_key app ext) \<noteq> Some ''error''"
  shows "\<exists>vr. flags_set vr \<and>
           verify_application_data api_key app ext = calculate_overall_verification_status vr"
proof -
  let ?body = "and_then (verify_name app ext initial_results) (\<lambda>vr1.
           and_then (verify_salary app ext vr1) (\<lambda>vr2.
           and_then (verify_employer app ext vr2) (\<lambda>vr3.
           and_then (verify_ssn app ext vr3) (\<lambda>vr4.
           Inr (calculate_overall_verification_status vr4)))))"
  have key: "\<not> (api_key = [] \<or> api_key = ''your_gemini_api_key_here'')"
    using assms by (auto simp: verify_application_data_def error_results_status)
  then have run: "verify_application_data api_key app ext =
      (case ?body of Inr vr \<Rightarrow> vr | Inl e \<Rightarrow> error_results e)"
    by (simp add: verify_application_data_def)
  obtain r where r: "?body = Inr r"
    using assms unfolding run by (cases ?body) (auto simp: error_results_status)
  from r obtain vr1 where 1: "verify_name app ext initial_results = Inr vr1"
    and r1: "and_then (verify_salary app ext vr1) (\<lambda>vr2.
           and_then (verify_employer app ext vr2) (\<lambda>vr3.
           and_then (verify_ssn app ext vr3) (\<lambda>vr4.
           Inr (calculate_overall_verification_status vr4)))) = Inr r"
    by (auto simp: and_then_def split: sum.splits)
  from r1 obtain vr2 where 2: "verify_salary app ext vr1 = Inr vr2"
    and r2: "and_then (verify_employer app ext vr2) (\<lambda>vr3.
           and_then (verify_ssn app ext vr3) (\<lambda>vr4.
           Inr (calculate_overall_verification_status vr4))) = Inr r"
    by (auto simp: and_then_def split: sum.splits)
  from r2 obtain vr3 where 3: "verify_employer app ext vr2 = Inr vr3"
    and r3: "and_then (verify_ssn app ext vr3) (\<lambda>vr4.
           Inr (calculate_overall_verification_status vr4)) = Inr r"
    by (auto simp: and_then_def split: sum.splits)
  from r3 obtain vr4 where 4: "verify_ssn app ext vr3 = Inr vr4"
    and r4: "r = calculate_overall_verification_status vr4"
    by (auto simp: and_then_def split: sum.splits)
  have "flags_set initial_results"
    by (simp add: flags_set_def initial_results_def)
  then have "flags_set vr4"
    using 1 2 3 4 verify_name_flags verify_salary_flags verify_employer_flags verify_ssn_flags
    by blast
  then show ?thesis
    using run r r4 by auto
qed







section \<open>Facts about word lists\<close>

lemma count_common_distinct:
  assumes "distinct xs"
  shows "length (filter (\<lambda>w. w \<in> set ys) xs) = card (set xs \<inter> set ys)"
proof -
  have "distinct (filter (\<lambda>w. w \<in> set ys) xs)"
    using assms by simp
  then have "length (filter (\<lambda>w. w \<in> set ys) xs) = card (set (filter (\<lambda>w. w \<in> set ys) xs))"
    by (rule distinct_card [symmetric])
  also have "set (filter (\<lambda>w. w \<in> set ys) xs) = set xs \<inter> set ys"
    by auto
  finally show ?thesis .
qed

lemma word_order_swap:
  assumes "length xs = length ys" "distinct xs" "distinct ys"
  shows "length (filter (\<lambda>w. w \<in> set ys) xs) = length (filter (\<lambda>w. w \<in> set xs) ys)"
  using assms by (simp add: count_common_distinct Int_commute)

text \<open>The similarity scores that the examples below meet.\<close>

lemma example_similarities:
  "calculate_name_similarity ''a a b'' ''a c d'' = 3752999689475413 / 9007199254740992"
  "calculate_name_similarity ''a c d'' ''a a b'' = 2552039788843281 / 9007199254740992"
  "calculate_name_similarity ''John Smith'' ''John A. Smith''
     = 3602879701896397 / 4503599627370496"
  "calculate_name_similarity ''John Smith'' ''Jane Smith''
     = 3602879701896397 / 9007199254740992"
  "calculate_name_similarity ''John Smith'' ''john   smith'' = 1"
  "calculate_name_similarity ''Acme Incorporated'' ''Acme''
     = 3152519739159347 / 4503599627370496"
  by (simp add: similarity_defs insert_commute, simp add: double_defs)+

section \<open>Overall status and score\<close>

text \<open>
  Claim C1. When all four match flags are booleans, the aggregator returns "mismatch"
  iff at least one flag is false and "verified" iff all four are true, and the score is
  the number of true flags divided by 4, times 100. Every run of
  \<open>verify_application_data\<close> that does not end in its exception handler (status
  "error") returns such a result: its four flags are booleans, and status and score
  are related to them in this way.
\<close>

theorem overall_status_iff_flags:
  "(name_match vr = Some a \<and> salary_match vr = Some b \<and>
    employer_match vr = Some c \<and> ssn_match vr = Some d \<longrightarrow>
      (overall_status (calculate_overall_verification_status vr) = Some ''mismatch''
         \<longleftrightarrow> (\<not> a \<or> \<not> b \<or> \<not> c \<or> \<not> d)) \<and>
      (overall_status (calculate_overall_verification_status vr) = Some ''verified''
         \<longleftrightarrow> (a \<and> b \<and> c \<and> d)) \<and>
      verification_score (calculate_overall_verification_status vr) =
        Some (of_nat (length (filter id [a, b, c, d])) / 4 * 100)) \<and>
   (overall_status (verify_application_data api_key app ext) \<noteq> Some ''error'' \<longrightarrow>
      (\<exists>a b c d.
         name_match (verify_application_data api_key app ext) = Some a \<and>
         salary_match (verify_application_data api_key app ext) = Some b \<and>
         employer_match (verify_application_data api_key app ext) = Some c \<and>
         ssn_match (verify_application_data api_key app ext) = Some d \<and>
         (overall_status (verify_application_data api_key app ext) = Some ''mismatch''
            \<longleftrightarrow> (\<not> a \<or> \<not> b \<or> \<not> c \<or> \<not> d)) \<and>
         (overall_status (verify_application_data api_key app ext) = Some ''verified''
            \<longleftrightarrow> (a \<and> b \<and> c \<and> d)) \<and>
         verification_score (verify_application_data api_key app ext) =
           Some (of_nat (length (filter id [a, b, c, d])) / 4 * 100)))"
proof (intro conjI impI)
  assume f: "name_match vr = Some a \<and> salary_match vr = Some b \<and>
    employer_match vr = Some c \<and> ssn_match vr = Some d"
  then show "(overall_status (calculate_overall_verification_status vr) = Some ''mismatch''
         \<longleftrightarrow> (\<not> a \<or> \<not> b \<or> \<not> c \<or> \<not> d))"
    and "(overall_status (calculate_overall_verification_status vr) = Some ''verified''
         \<longleftrightarrow> (a \<and> b \<and> c \<and> d))"
    by (auto simp: aggregate_four_flags(1))
  from f show "verification_score (calculate_overall_verification_status vr) =
        Some (of_nat (length (filter id [a, b, c, d])) / 4 * 100)"
    by (simp only: aggregate_four_flags(2))
next
  let ?r = "verify_application_data api_key app ext"
  assume "overall_status ?r \<noteq> Some ''error''"
  then obtain vr where fs: "flags_set vr" and r: "?r = calculate_overall_verification_status vr"
    using verify_completed by blast
  from fs obtain a b c d where f: "name_match vr = Some a" "salary_match vr = Some b"
    "employer_match vr = Some c" "ssn_match vr = Some d"
    by (auto simp: flags_set_def)
  have "name_match ?r = Some a" "salary_match ?r = Some b" "employer_match ?r = Some c"
    "ssn_match ?r = Some d"
    using f aggregate_flags [of vr] by (simp_all add: r)
  moreover have "overall_status ?r = Some (if a \<and> b \<and> c \<and> d then ''verified'' else ''mismatch'')"
    unfolding r using f by (rule aggregate_four_flags(1))
  moreover have "verification_score ?r = Some (of_nat (length (filter id [a, b, c, d])) / 4 * 100)"
    unfolding r using f by (rule aggregate_four_flags(2))
  ultimately show "\<exists>a b c d.
         name_match ?r = Some a \<and> salary_match ?r = Some b \<and>
         employer_match ?r = Some c \<and> ssn_match ?r = Some d \<and>
         (overall_status ?r = Some ''mismatch'' \<longleftrightarrow> (\<not> a \<or> \<not> b \<or> \<not> c \<or> \<not> d)) \<and>
         (overall_status ?r = Some ''verified'' \<longleftrightarrow> (a \<and> b \<and> c \<and> d)) \<and>
         verification_score ?r = Some (of_nat (length (filter id [a, b, c, d])) / 4 * 100)"
    by (intro exI [of _ a] exI [of _ b] exI [of _ c] exI [of _ d]) auto
qed

text \<open>
  Witness for C1: a dict with three true flags and one false flag aggregates to
  "mismatch" with score 75, and the run on an application and a pay stub that agree in
  all four fields does not end in "error" and is "verified" with score 100.
\<close>

theorem overall_status_iff_flags_witness:
  "overall_status (calculate_overall_verification_status
      (initial_results\<lparr>name_match := Some True, salary_match := Some True,
         employer_match := Some False, ssn_match := Some True\<rparr>)) = Some ''mismatch'' \<and>
   verification_score (calculate_overall_verification_status
      (initial_results\<lparr>name_match := Some True, salary_match := Some True,
         employer_match := Some False, ssn_match := Some True\<rparr>)) = Some 75 \<and>
   overall_status (verify_application_data ''key''
      \<lparr>name = ''Maria Garcia'', annual_salary = 60000, employer_name = ''Acme Corp'',
       ssn = ''999887777''\<rparr>
      [''employee_name'' \<mapsto> PyStr ''Maria Garcia'', ''company_name'' \<mapsto> PyStr ''Acme'',
       ''annual_salary'' \<mapsto> PyFloat 60500, ''ssn'' \<mapsto> PyStr ''7777'']) = Some ''verified'' \<and>
   verification_score (verify_application_data ''key''
      \<lparr>name = ''Maria Garcia'', annual_salary = 60000, employer_name = ''Acme Corp'',
       ssn = ''999887777''\<rparr>
      [''employee_name'' \<mapsto> PyStr ''Maria Garcia'', ''company_name'' \<mapsto> PyStr ''Acme'',
       ''annual_salary'' \<mapsto> PyFloat 60500, ''ssn'' \<mapsto> PyStr ''7777'']) = Some 100"
proof -
  let ?v = "initial_results\<lparr>name_match := Some True, salary_match := Some True,
         employer_match := Some False, ssn_match := Some True\<rparr>"
  let ?app = "\<lparr>name = ''Maria Garcia'', annual_salary = 60000, employer_name = ''Acme Corp'',
       ssn = ''999887777''\<rparr>"
  let ?ext = "[''employee_name'' \<mapsto> PyStr ''Maria Garcia'', ''company_name'' \<mapsto> PyStr ''Acme'',
       ''annual_salary'' \<mapsto> PyFloat 60500, ''ssn'' \<mapsto> PyStr ''7777'']"
  let ?r = "verify_application_data ''key'' ?app ?ext"
  note inst = overall_status_iff_flags [of ?v True True False True "''key''" ?app ?ext]
  have f: "name_match ?v = Some True \<and> salary_match ?v = Some True \<and>
    employer_match ?v = Some False \<and> ssn_match ?v = Some True"
    by simp
  have agg: "overall_status (calculate_overall_verification_status ?v) = Some ''mismatch''"
    "verification_score (calculate_overall_verification_status ?v) = Some 75"
    using inst f by simp_all
  have h: "overall_status ?r \<noteq> Some ''error''"
    by (simp add: verify_defs salary_floats; simp add: double_defs)
  have flags: "name_match ?r = Some True" "salary_match ?r = Some True"
    "employer_match ?r = Some True" "ssn_match ?r = Some True"
    by (simp add: verify_defs salary_floats; simp add: double_defs)+
  from inst h obtain a b c d where
    "name_match ?r = Some a" "salary_match ?r = Some b" "employer_match ?r = Some c"
    "ssn_match ?r = Some d"
    "overall_status ?r = Some ''verified'' \<longleftrightarrow> (a \<and> b \<and> c \<and> d)"
    "verification_score ?r = Some (of_nat (length (filter id [a, b, c, d])) / 4 * 100)"
    by blast
  with flags have "overall_status ?r = Some ''verified''" "verification_score ?r = Some 100"
    by simp_all
  with agg show ?thesis
    by simp
qed

section \<open>Missing data\<close>

text \<open>
  Claim C2 (fails on the code). The pay stub of this run has \<^verbatim>\<open>employee_name\<close> stored as
  \<^verbatim>\<open>None\<close>, the value the extraction uses for a field it did not find.
  \<^verbatim>\<open>extracted_data.get("employee_name", "")\<close> returns that \<^verbatim>\<open>None\<close>, \<^verbatim>\<open>.lower()\<close> raises
  \<^verbatim>\<open>AttributeError\<close>, and the handler returns the error dict: the status is "error" and
  the name reason is the text of the exception. With the key left out instead, the same
  run completes: the name is a mismatch with the reason for missing data. A salary or an
  SSN stored as \<^verbatim>\<open>None\<close> is handled in that way too.
\<close>

theorem none_name_ends_in_error:
  "verify_application_data ''key''
      \<lparr>name = ''Maria Garcia'', annual_salary = 60000, employer_name = ''Acme Corp'',
       ssn = ''999887777''\<rparr>
      [''employee_name'' \<mapsto> PyNone, ''company_name'' \<mapsto> PyStr ''Acme'',
       ''annual_salary'' \<mapsto> PyFloat 60500, ''ssn'' \<mapsto> PyStr ''7777'']
     = error_results AttributeError \<and>
   overall_status (error_results AttributeError) = Some ''error'' \<and>
   name_reason (error_results AttributeError) =
     [FLit ''Verification error: '', FExc AttributeError] \<and>
   name_reason (verify_application_data ''key''
      \<lparr>name = ''Maria Garcia'', annual_salary = 60000, employer_name = ''Acme Corp'',
       ssn = ''999887777''\<rparr>
      [''company_name'' \<mapsto> PyStr ''Acme'', ''annual_salary'' \<mapsto> PyFloat 60500,
       ''ssn'' \<mapsto> PyStr ''7777''])
     = [FLit ''Could not verify name - missing data''] \<and>
   overall_status (verify_application_data ''key''
      \<lparr>name = ''Maria Garcia'', annual_salary = 60000, employer_name = ''Acme Corp'',
       ssn = ''999887777''\<rparr>
      [''company_name'' \<mapsto> PyStr ''Acme'', ''annual_salary'' \<mapsto> PyFloat 60500,
       ''ssn'' \<mapsto> PyStr ''7777''])
     = Some ''mismatch'' \<and>
   salary_reason (verify_application_data ''key''
      \<lparr>name = ''Maria Garcia'', annual_salary = 60000, employer_name = ''Acme Corp'',
       ssn = ''999887777''\<rparr>
      [''employee_name'' \<mapsto> PyStr ''Maria Garcia'', ''company_name'' \<mapsto> PyStr ''Acme'',
       ''annual_salary'' \<mapsto> PyNone, ''ssn'' \<mapsto> PyStr ''7777''])
     = [FLit ''Could not extract salary from pay stub'']"
  by (simp add: verify_defs error_results_def salary_floats; simp add: double_defs)

section \<open>Name similarity\<close>

text \<open>
  Counterexample to claim C3 as stated. Both names have three words, so the word-order
  score counts the words of the first argument that occur in the second: two of
  "a a b" occur in "a c d", one of "a c d" occurs in "a a b". The two scores are the
  doubles 0.41666666666666663 and 0.2833333333333333.
\<close>

theorem name_similarity_not_symmetric:
  "calculate_name_similarity ''a a b'' ''a c d'' = 3752999689475413 / 9007199254740992 \<and>
   calculate_name_similarity ''a c d'' ''a a b'' = 2552039788843281 / 9007199254740992 \<and>
   calculate_name_similarity ''a a b'' ''a c d'' \<noteq> calculate_name_similarity ''a c d'' ''a a b''"
  by (simp add: example_similarities)

text \<open>
  Claim C3, amended. The similarity of two strings is the same in both orders whenever
  their lists of words (after lower-casing and trimming) differ in length, or neither
  list repeats a word.
\<close>

theorem name_similarity_symmetric:
  assumes "length (py_split (py_strip (py_lower a))) \<noteq> length (py_split (py_strip (py_lower b)))
           \<or> (distinct (py_split (py_strip (py_lower a))) \<and>
               distinct (py_split (py_strip (py_lower b))))"
  shows "calculate_name_similarity a b = calculate_name_similarity b a"
proof -
  let ?A = "py_split (py_strip (py_lower a))"
  let ?B = "py_split (py_strip (py_lower b))"
  show ?thesis
  proof (cases "length ?A = length ?B")
    case False
    then show ?thesis
      by (auto simp: calculate_name_similarity_def Let_def Int_commute Un_commute)
  next
    case True
    with assms have d: "distinct ?A" "distinct ?B" by auto
    have "length (filter (\<lambda>w. w \<in> set ?B) ?A) = length (filter (\<lambda>w. w \<in> set ?A) ?B)"
      using True d by (rule word_order_swap)
    then show ?thesis
      using True
      by (auto simp: calculate_name_similarity_def Let_def Int_commute Un_commute)
  qed
qed

text \<open>
  Witness for C3: a pair with word lists of different length (both scores are the
  double 0.8), and a pair with two distinct words each (both scores are the double 0.4).
\<close>

theorem name_similarity_symmetric_witness:
  "calculate_name_similarity ''John Smith'' ''John A. Smith''
     = 3602879701896397 / 4503599627370496 \<and>
   calculate_name_similarity ''John A. Smith'' ''John Smith''
     = 3602879701896397 / 4503599627370496 \<and>
   calculate_name_similarity ''John Smith'' ''Jane Smith''
     = 3602879701896397 / 9007199254740992 \<and>
   calculate_name_similarity ''Jane Smith'' ''John Smith''
     = 3602879701896397 / 9007199254740992"
proof -
  have h1: "length (py_split (py_strip (py_lower ''John Smith'')))
             \<noteq> length (py_split (py_strip (py_lower ''John A. Smith'')))
           \<or> (distinct (py_split (py_strip (py_lower ''John Smith''))) \<and>
               distinct (py_split (py_strip (py_lower ''John A. Smith''))))"
    by (simp add: string_defs)
  have h2: "length (py_split (py_strip (py_lower ''John Smith'')))
             \<noteq> length (py_split (py_strip (py_lower ''Jane Smith'')))
           \<or> (distinct (py_split (py_strip (py_lower ''John Smith''))) \<and>
               distinct (py_split (py_strip (py_lower ''Jane Smith''))))"
    by (simp add: string_defs)
  show ?thesis
    using name_similarity_symmetric [OF h1] name_similarity_symmetric [OF h2]
      example_similarities(3,4)
    by simp
qed

text \<open>
  Counterexample to claim C8 as stated. Two empty strings are equal after lower-casing
  and trimming, and the guard on empty arguments returns 0 for them.
\<close>

theorem empty_names_similarity:
  "py_strip (py_lower []) = py_strip (py_lower []) \<and>
   calculate_name_similarity [] [] = 0 \<and> calculate_name_similarity [] [] \<noteq> 1"
  by (simp add: calculate_name_similarity_def)

text \<open>
  Claim C8, amended. For two non-empty strings that are equal after lower-casing and
  trimming (two all-whitespace strings included) the similarity is exactly 1; when
  either string is empty the similarity is 0; and the similarity of "John Smith" and
  "john   smith" is 1.
\<close>

theorem equal_names_similarity:
  "(a \<noteq> [] \<and> b \<noteq> [] \<and> py_strip (py_lower a) = py_strip (py_lower b)
      \<longrightarrow> calculate_name_similarity a b = 1) \<and>
   (a = [] \<or> b = [] \<longrightarrow> calculate_name_similarity a b = 0) \<and>
   calculate_name_similarity ''John Smith'' ''john   smith'' = 1"
  by (simp add: example_similarities) (auto simp: calculate_name_similarity_def)

text \<open>Witness for C8: two all-whitespace strings, a name against its lower-cased,
  padded form, and an empty string on either side.\<close>

theorem equal_names_similarity_witness:
  "calculate_name_similarity ''  '' ''   '' = 1 \<and>
   calculate_name_similarity ''Maria Garcia'' '' maria garcia '' = 1 \<and>
   calculate_name_similarity [] ''John Smith'' = 0 \<and>
   calculate_name_similarity ''John Smith'' [] = 0"
proof -
  have 1: "''  '' \<noteq> [] \<and> ''   '' \<noteq> [] \<and> py_strip (py_lower ''  '') = py_strip (py_lower ''   '')"
    by (simp add: string_defs)
  have 2: "''Maria Garcia'' \<noteq> [] \<and> '' maria garcia '' \<noteq> [] \<and>
      py_strip (py_lower ''Maria Garcia'') = py_strip (py_lower '' maria garcia '')"
    by (simp add: string_defs)
  have 3: "[] = ([] :: string) \<or> ''John Smith'' = []"
    by simp
  have 4: "''John Smith'' = [] \<or> [] = ([] :: string)"
    by simp
  show ?thesis
    using equal_names_similarity [of "''  ''" "''   ''"]
      equal_names_similarity [of "''Maria Garcia''" "'' maria garcia ''"]
      equal_names_similarity [of "[]" "''John Smith''"]
      equal_names_similarity [of "''John Smith''" "[]"] 1 2 3 4
    by blast
qed

section \<open>Employer similarity\<close>

text \<open>
  Claim C7 (fails on the code). The loop removes the text " inc" from
  "acme incorporated", inside a word, and the token "group" from the middle of
  "first group holdings": \<^verbatim>\<open>str.replace\<close> does not look at token boundaries or at the
  position in the string. For "Acme Incorporated" against "Acme" the employer
  similarity is therefore 0, where the name similarity of the two strings, which have
  no trailing suffix token to strip, is the double 0.7.
\<close>

theorem employer_suffix_removed_inside_words:
  "remove_suffixes ''acme incorporated'' = ''acmeorporated'' \<and>
   remove_suffixes ''first group holdings'' = ''first holdings'' \<and>
   calculate_employer_similarity ''Acme Incorporated'' ''Acme'' = 0 \<and>
   calculate_name_similarity ''Acme Incorporated'' ''Acme''
     = 3152519739159347 / 4503599627370496"
  by (simp add: example_similarities(6)) (simp add: similarity_defs, simp add: double_defs)

section \<open>Salary tolerance\<close>




section \<open>The aggregator in isolation\<close>

text \<open>
  Claim C10. The score of the aggregator is the number of true flags divided by the
  number of flags that are not \<^verbatim>\<open>None\<close> (not by 4), times 100, both operations in
  double arithmetic, and 0 when no flag is evaluated; when all four flags are \<^verbatim>\<open>None\<close>
  the status is "verified", the score 0 and the list of verified fields empty.
\<close>

theorem aggregator_score_denominator:
  "verification_score (calculate_overall_verification_status vr) =
     Some (let flags = [name_match vr, salary_match vr, employer_match vr, ssn_match vr];
               evaluated = length (filter (\<lambda>f. \<not> Option.is_none f) flags);
               matched = length (filter (\<lambda>f. f = Some True) flags)
           in if evaluated > 0 then fmul (fdiv (of_nat matched) (of_nat evaluated)) 100
              else 0) \<and>
   (name_match vr = None \<and> salary_match vr = None \<and> employer_match vr = None \<and>
    ssn_match vr = None \<longrightarrow>
      overall_status (calculate_overall_verification_status vr) = Some ''verified'' \<and>
      verification_score (calculate_overall_verification_status vr) = Some 0 \<and>
      verified_fields (calculate_overall_verification_status vr) = Some [])"
proof (intro conjI impI)
  show "verification_score (calculate_overall_verification_status vr) =
     Some (let flags = [name_match vr, salary_match vr, employer_match vr, ssn_match vr];
               evaluated = length (filter (\<lambda>f. \<not> Option.is_none f) flags);
               matched = length (filter (\<lambda>f. f = Some True) flags)
           in if evaluated > 0 then fmul (fdiv (of_nat matched) (of_nat evaluated)) 100
              else 0)"
    by (rule aggregate_score_cases)
next
  assume none: "name_match vr = None \<and> salary_match vr = None \<and> employer_match vr = None \<and>
    ssn_match vr = None"
  then show "overall_status (calculate_overall_verification_status vr) = Some ''verified''"
    and "verification_score (calculate_overall_verification_status vr) = Some 0"
    and "verified_fields (calculate_overall_verification_status vr) = Some []"
    by (simp_all add: calculate_overall_verification_status_def check_field_def)
qed

text \<open>
  Witness for C10: with no flag evaluated the result is "verified" with score 0; with
  two flags evaluated, one of them true, the score is 50.
\<close>

theorem aggregator_score_denominator_witness:
  "overall_status (calculate_overall_verification_status
      (initial_results\<lparr>name_match := None, salary_match := None, employer_match := None,
         ssn_match := None\<rparr>)) = Some ''verified'' \<and>
   verification_score (calculate_overall_verification_status
      (initial_results\<lparr>name_match := None, salary_match := None, employer_match := None,
         ssn_match := None\<rparr>)) = Some 0 \<and>
   verification_score (calculate_overall_verification_status
      (initial_results\<lparr>name_match := Some True, salary_match := Some False,
         employer_match := None, ssn_match := None\<rparr>)) = Some 50"
proof -
  let ?none = "initial_results\<lparr>name_match := None, salary_match := None,
    employer_match := None, ssn_match := None\<rparr>"
  let ?two = "initial_results\<lparr>name_match := Some True, salary_match := Some False,
    employer_match := None, ssn_match := None\<rparr>"
  have n: "name_match ?none = None \<and> salary_match ?none = None \<and>
    employer_match ?none = None \<and> ssn_match ?none = None"
    by simp
  have "overall_status (calculate_overall_verification_status ?none) = Some ''verified'' \<and>
    verification_score (calculate_overall_verification_status ?none) = Some 0"
    using aggregator_score_denominator [of ?none] n by blast
  moreover have "verification_score (calculate_overall_verification_status ?two) = Some 50"
    using aggregator_score_denominator [of ?two] by (simp add: initial_results_def half_score)
  ultimately show ?thesis
    by simp
qed

section \<open>Order of the stream events\<close>

text \<open>
  Counterexample to claim C5 as stated. A run in which extraction and persistence
  succeed yields ten events: after "downloading" comes a step "ocr" with progress 40,
  and "extracting" has progress 50. This is not the nine-step sequence of the claim.
\<close>

theorem stream_emits_ocr_step:
  "map (\<lambda>e. (step e, progress e))
     (generate_verification_stream ''key''
        \<lparr>name = ''Maria Garcia'', annual_salary = 60000, employer_name = ''Acme Corp'',
         ssn = ''999887777''\<rparr>
        (Inr [''employee_name'' \<mapsto> PyStr ''Maria Garcia'']) (Inr ''v1''))
   = [(''starting'', 0), (''downloading'', 20), (''ocr'', 40), (''extracting'', 50),
      (''extracted'', 60), (''verifying_name'', 70), (''verifying_salary'', 80),
      (''verifying_employer'', 90), (''finalizing'', 95), (''complete'', 100)] \<and>
   map (\<lambda>e. (step e, progress e))
     (generate_verification_stream ''key''
        \<lparr>name = ''Maria Garcia'', annual_salary = 60000, employer_name = ''Acme Corp'',
         ssn = ''999887777''\<rparr>
        (Inr [''employee_name'' \<mapsto> PyStr ''Maria Garcia'']) (Inr ''v1''))
   \<noteq> [(''starting'', 0), (''downloading'', 20), (''extracting'', 40),
      (''extracted'', 60), (''verifying_name'', 70), (''verifying_salary'', 80),
      (''verifying_employer'', 90), (''finalizing'', 95), (''complete'', 100)]"
  by (simp add: generate_verification_stream_def progress_event_def Let_def)

text \<open>
  Claim C5, amended. The stream yields starting(0), downloading(20), ocr(40),
  extracting(50), extracted(60), verifying_name(70), verifying_salary(80),
  verifying_employer(90), finalizing(95), complete(100) in this order. Only two steps
  can end it early, each with one error event of progress 0 and error flag true: an
  extraction that raises ends it after extracting(50), and a \<^verbatim>\<open>create_verification\<close>
  that raises ends it after finalizing(95). The verification itself never raises: when
  it ends in its exception handler the stream still goes on to complete(100), whose
  payload is the error dict. No other step or progress value occurs, and no step
  occurs twice.
\<close>

theorem stream_event_order:
  "map (\<lambda>e. (step e, progress e, error e))
     (generate_verification_stream api_key application extraction creation) =
   [(''starting'', 0, False), (''downloading'', 20, False), (''ocr'', 40, False),
    (''extracting'', 50, False)] @
   (case extraction of
      Inl e \<Rightarrow> [(''error'', 0, True)]
    | Inr extracted_data \<Rightarrow>
        [(''extracted'', 60, False), (''verifying_name'', 70, False),
         (''verifying_salary'', 80, False), (''verifying_employer'', 90, False),
         (''finalizing'', 95, False)] @
        (case creation of
           Inl e \<Rightarrow> [(''error'', 0, True)]
         | Inr verification_id \<Rightarrow> [(''complete'', 100, False)])) \<and>
   distinct (map step (generate_verification_stream api_key application extraction creation)) \<and>
   (extraction = Inr extracted_data \<and> creation = Inr verification_id \<longrightarrow>
      payload (last (generate_verification_stream api_key application extraction creation)) =
        VerificationResults (verify_application_data api_key application extracted_data)
          verification_id)"
  by (cases extraction; cases creation;
      simp add: generate_verification_stream_def progress_event_def error_event_def Let_def)

text \<open>
  Witness for C5: the events of a run whose extraction raises, of a run whose
  \<^verbatim>\<open>create_verification\<close> raises, and the last event of a run whose verification ends in
  its exception handler (the pay stub has the name stored as \<^verbatim>\<open>None\<close>): that event is
  complete(100) and carries the error dict.
\<close>

theorem stream_event_order_witness:
  "map (\<lambda>e. (step e, progress e, error e))
     (generate_verification_stream ''key''
        \<lparr>name = ''Maria Garcia'', annual_salary = 60000, employer_name = ''Acme Corp'',
         ssn = ''999887777''\<rparr>
        (Inl (Exception ''OCR extraction failed: timeout'')) (Inr ''v1'')) =
   [(''starting'', 0, False), (''downloading'', 20, False), (''ocr'', 40, False),
    (''extracting'', 50, False), (''error'', 0, True)] \<and>
   map (\<lambda>e. (step e, progress e, error e))
     (generate_verification_stream ''key''
        \<lparr>name = ''Maria Garcia'', annual_salary = 60000, employer_name = ''Acme Corp'',
         ssn = ''999887777''\<rparr>
        (Inr [''employee_name'' \<mapsto> PyStr ''Maria Garcia''])
        (Inl (Exception ''Failed to create verification: unavailable''))) =
   [(''starting'', 0, False), (''downloading'', 20, False), (''ocr'', 40, False),
    (''extracting'', 50, False), (''extracted'', 60, False), (''verifying_name'', 70, False),
    (''verifying_salary'', 80, False), (''verifying_employer'', 90, False),
    (''finalizing'', 95, False), (''error'', 0, True)] \<and>
   map (\<lambda>e. (step e, progress e, error e))
     (generate_verification_stream ''key''
        \<lparr>name = ''Maria Garcia'', annual_salary = 60000, employer_name = ''Acme Corp'',
         ssn = ''999887777''\<rparr>
        (Inr [''employee_name'' \<mapsto> PyNone]) (Inr ''v1'')) =
   [(''starting'', 0, False), (''downloading'', 20, False), (''ocr'', 40, False),
    (''extracting'', 50, False), (''extracted'', 60, False), (''verifying_name'', 70, False),
    (''verifying_salary'', 80, False), (''verifying_employer'', 90, False),
    (''finalizing'', 95, False), (''complete'', 100, False)] \<and>
   payload (last (generate_verification_stream ''key''
        \<lparr>name = ''Maria Garcia'', annual_salary = 60000, employer_name = ''Acme Corp'',
         ssn = ''999887777''\<rparr>
        (Inr [''employee_name'' \<mapsto> PyNone]) (Inr ''v1''))) =
     VerificationResults (error_results AttributeError) ''v1''"
proof -
  let ?app = "\<lparr>name = ''Maria Garcia'', annual_salary = 60000, employer_name = ''Acme Corp'',
         ssn = ''999887777''\<rparr>"
  have v: "verify_application_data ''key'' ?app [''employee_name'' \<mapsto> PyNone]
             = error_results AttributeError"
    by (simp add: verify_application_data_def verify_name_def lower_strip_def and_then_def
        get_default_def)
  show ?thesis
    using stream_event_order [of "''key''" ?app
        "Inl (Exception ''OCR extraction failed: timeout'')" "Inr ''v1''"]
      stream_event_order [of "''key''" ?app "Inr [''employee_name'' \<mapsto> PyStr ''Maria Garcia'']"
        "Inl (Exception ''Failed to create verification: unavailable'')"]
      stream_event_order [of "''key''" ?app "Inr [''employee_name'' \<mapsto> PyNone]" "Inr ''v1''"
        "[''employee_name'' \<mapsto> PyNone]" "''v1''"]
      v
    by simp
qed

section \<open>Deriving the annual salary\<close>




end
